theory Spec2Isabelle
  imports Main "HOL-Library.Word"
begin

section \<open>Proof-of-work retargeting and validation (src/pow.cpp)\<close>

text \<open>
  The two functions of \<^verbatim>\<open>pow.cpp\<close>, \<^verbatim>\<open>GetNextWorkRequired\<close> and
  \<^verbatim>\<open>CheckProofOfWork\<close>, are embedded as HOL functions. Inputs keep the width of their
  C++ types: a \<^verbatim>\<open>uint32_t\<close> is a \<open>32 word\<close> read with \<open>uint\<close>, an \<^verbatim>\<open>int\<close> is a
  \<open>32 word\<close> read with \<open>sint\<close>, a 256-bit magnitude is a \<open>256 word\<close>. The arithmetic
  of the function body is carried out on \<open>int\<close>:
  \<^item> \<^verbatim>\<open>/\<close> and \<^verbatim>\<open>%\<close> truncate towards zero (\<open>c_div\<close>, \<open>c_mod\<close>);
  \<^item> a conversion to a narrower or unsigned type, which C++ defines as reduction modulo
    \<open>2 ^ w\<close>, is written out (\<open>to_int\<close>, \<open>to_uint32\<close>, \<open>to_uint64\<close>);
  \<^item> unsigned 256-bit arithmetic wraps (it is word arithmetic);
  \<^item> the sums and products that lines 77 to 94 form in \<^verbatim>\<open>int\<close> are reduced modulo
    \<open>2 ^ 32\<close> as well (\<open>to_int\<close>), which is what the compiled code does where C++ leaves
    the overflow undefined; the increment of line 18 and the product of line 40 are
    left exact: they overflow only at the height \<open>2 ^ 31 - 1\<close> or a spacing of \<open>2 ^ 30\<close>;
  \<^item> a failed \<^verbatim>\<open>assert\<close>, an integer division by zero, a null dereference and the
    \<^verbatim>\<open>uint_error\<close> thrown by a 256-bit division by zero are results of type \<open>error\<close>.
\<close>

datatype error = AssertionFailed | DivisionByZero | NullDereference | UintError

definition c_div :: "int \<Rightarrow> int \<Rightarrow> int" where
  "c_div a b = sgn a * sgn b * (\<bar>a\<bar> div \<bar>b\<bar>)"

definition c_mod :: "int \<Rightarrow> int \<Rightarrow> int" where
  "c_mod a b = sgn a * (\<bar>a\<bar> mod \<bar>b\<bar>)"

definition to_int :: "int \<Rightarrow> int" where
  "to_int x = (x + 2 ^ 31) mod 2 ^ 32 - 2 ^ 31"

definition to_uint32 :: "int \<Rightarrow> int" where
  "to_uint32 x = x mod 2 ^ 32"

definition to_uint64 :: "int \<Rightarrow> int" where
  "to_uint64 x = x mod 2 ^ 64"

subsection \<open>The 256-bit magnitude and its compact codec\<close>

text \<open>
  Modelled from the spec: the class \<^verbatim>\<open>arith_uint256\<close> (\<^verbatim>\<open>arith_uint256.h\<close>) is not among
  the sources. The spec gives the compact form as a 32-bit base-256 floating-point number
  with a one-byte exponent and a three-byte mantissa whose top bit is the sign, decoded
  into a magnitude and the two flags \<open>negative\<close> and \<open>overflow\<close>, and encoded by
  truncation to the mantissa width. \<open>bits\<close> is the bit length, \<open>SetCompact\<close> decodes,
  \<open>GetCompact\<close> encodes.
\<close>

fun bits_nat :: "nat \<Rightarrow> nat" where
  "bits_nat n = (if n = 0 then 0 else Suc (bits_nat (n div 2)))"

declare bits_nat.simps [simp del]

definition bits :: "256 word \<Rightarrow> nat" where
  "bits a = bits_nat (unat a)"

definition SetCompact :: "32 word \<Rightarrow> 256 word \<times> bool \<times> bool" where
  "SetCompact nCompact =
    (let c = unat nCompact;
         nSize = c div 2 ^ 24;
         nWord = c mod 2 ^ 23;
         nWord = (if nSize \<le> 3 then nWord div 2 ^ (8 * (3 - nSize)) else nWord);
         bn = (if nSize \<le> 3 then word_of_nat nWord
               else push_bit (8 * (nSize - 3)) (word_of_nat nWord));
         fNegative = (nWord \<noteq> 0 \<and> (c div 2 ^ 23) mod 2 = 1);
         fOverflow = (nWord \<noteq> 0 \<and> (nSize > 34 \<or> (nWord > 255 \<and> nSize > 33)
                                     \<or> (nWord > 65535 \<and> nSize > 32)))
     in (bn, fNegative, fOverflow))"

definition GetCompact :: "256 word \<Rightarrow> 32 word" where
  "GetCompact a =
    (let x = unat a;
         nSize = (bits a + 7) div 8;
         nCompact = (if nSize \<le> 3 then (x * 2 ^ (8 * (3 - nSize))) mod 2 ^ 32
                     else (x div 2 ^ (8 * (nSize - 3))) mod 2 ^ 32);
         fSign = ((nCompact div 2 ^ 23) mod 2 = 1);
         nCompact = (if fSign then nCompact div 2 ^ 8 else nCompact);
         nSize = (if fSign then nSize + 1 else nSize)
     in word_of_nat (nCompact + nSize * 2 ^ 24))"

subsection \<open>Chain index and consensus parameters\<close>

text \<open>
  Modelled from the spec: \<^verbatim>\<open>CBlockIndex\<close> (\<^verbatim>\<open>chain.h\<close>) and \<^verbatim>\<open>Consensus::Params\<close>
  (\<^verbatim>\<open>consensus/params.h\<close>) are not among the sources. A chain index node has a height
  (\<^verbatim>\<open>int\<close>), a block time and compact bits (32-bit unsigned header fields) and a reference
  to its predecessor, absent at genesis. \<open>GetBlockTime\<close> widens the time to a signed
  64-bit value. \<open>GetAncestor\<close> answers null for a height that is negative or above the
  node's own, and otherwise follows the predecessor references for the difference of the
  heights. The parameters \<open>nPowTargetTimespan\<close>, \<open>nPowTargetSpacing\<close>, \<open>nForkOne\<close>
  and \<open>nForkTwo\<close> are \<^verbatim>\<open>int\<close>, as the spec lists them.
\<close>

datatype CBlockIndex =
  CBlockIndex (nHeight: "32 word") (nTime: "32 word") (nBits: "32 word")
    (pprev: "CBlockIndex option")

record Params =
  powLimit :: "256 word"
  nPowTargetTimespan :: "32 word"
  nPowTargetSpacing :: "32 word"
  fPowAllowMinDifficultyBlocks :: bool
  fPowNoRetargeting :: bool
  nForkOne :: "32 word"
  nForkTwo :: "32 word"

definition GetBlockTime :: "CBlockIndex \<Rightarrow> int" where
  "GetBlockTime pindex = uint (nTime pindex)"

primrec pprev_steps :: "nat \<Rightarrow> CBlockIndex option \<Rightarrow> CBlockIndex option" where
  "pprev_steps 0 p = p"
| "pprev_steps (Suc k) p = (case p of None \<Rightarrow> None | Some b \<Rightarrow> pprev_steps k (pprev b))"

definition GetAncestor :: "CBlockIndex \<Rightarrow> int \<Rightarrow> CBlockIndex option" where
  "GetAncestor pindex height =
    (if height > sint (nHeight pindex) \<or> height < 0 then None
     else pprev_steps (nat (sint (nHeight pindex) - height)) (Some pindex))"

subsection \<open>GetNextWorkRequired\<close>

text \<open>Lines 19 to 26: the target timespan in force at the height of the next block.\<close>

definition TargetTimespan :: "Params \<Rightarrow> int \<Rightarrow> int" where
  "TargetTimespan params nHeight' =
    (let nTargetTimespan = sint (nPowTargetTimespan params);
         nTargetTimespan = (if nHeight' \<ge> sint (nForkOne params)
                            then c_div (7 * 24 * 60 * 60) 8 else nTargetTimespan);
         nTargetTimespan = (if nHeight' \<ge> sint (nForkTwo params)
                            then c_div (7 * 24 * 60 * 60) 32 else nTargetTimespan)
     in nTargetTimespan)"

text \<open>Line 18 and line 28: the height of the next block and the retarget interval.\<close>

definition NextHeight :: "CBlockIndex \<Rightarrow> int" where
  "NextHeight pindexLast = sint (nHeight pindexLast) + 1"

definition Interval :: "Params \<Rightarrow> int \<Rightarrow> int" where
  "Interval params nHeight' =
    c_div (TargetTimespan params nHeight') (sint (nPowTargetSpacing params))"

text \<open>
  Lines 45 to 47: the walk back over the blocks mined under the min-difficulty rule. The
  loop condition reads \<^verbatim>\<open>pindex->pprev\<close> first, so the walk never leaves the chain.
\<close>

fun LastNonSpecial :: "int \<Rightarrow> 32 word \<Rightarrow> CBlockIndex \<Rightarrow> CBlockIndex" where
  "LastNonSpecial nInterval nProofOfWorkLimit (CBlockIndex h t b None) = CBlockIndex h t b None"
| "LastNonSpecial nInterval nProofOfWorkLimit (CBlockIndex h t b (Some q)) =
    (if c_mod (sint h) nInterval \<noteq> 0 \<and> b = nProofOfWorkLimit
     then LastNonSpecial nInterval nProofOfWorkLimit q
     else CBlockIndex h t b (Some q))"

text \<open>Lines 35 to 51: the result when no retarget is due.\<close>

definition NoRetarget :: "CBlockIndex \<Rightarrow> 32 word \<Rightarrow> Params \<Rightarrow> int \<Rightarrow> 32 word" where
  "NoRetarget pindexLast pblock_nTime params nInterval =
    (let nProofOfWorkLimit = GetCompact (powLimit params) in
     if fPowAllowMinDifficultyBlocks params then
       (if uint pblock_nTime > GetBlockTime pindexLast + sint (nPowTargetSpacing params) * 2
        then nProofOfWorkLimit
        else nBits (LastNonSpecial nInterval nProofOfWorkLimit pindexLast))
     else nBits pindexLast)"

text \<open>
  Lines 68 and 69: the loop \<^verbatim>\<open>for (i = 0; pindexFirst && i < nInterval; i++)\<close>, which
  steps to the predecessor and can end on the null pointer.
\<close>

function LongWindowFirst :: "int \<Rightarrow> int \<Rightarrow> CBlockIndex option \<Rightarrow> CBlockIndex option" where
  "LongWindowFirst i nInterval pindexFirst =
    (case pindexFirst of
       None \<Rightarrow> None
     | Some b \<Rightarrow> if i < nInterval then LongWindowFirst (i + 1) nInterval (pprev b)
                else Some b)"
  by pat_completeness auto
termination
  by (relation "measure (\<lambda>(i, nInterval, p). nat (nInterval - i))") auto

declare LongWindowFirst.simps [simp del]

text \<open>
  Lines 63 to 79: the measured timespan, before it is limited. The long timespan and the
  average are \<^verbatim>\<open>int\<close> variables, and line 77 forms its sum and product in \<^verbatim>\<open>int\<close>.
\<close>

definition ActualTimespan ::
  "CBlockIndex \<Rightarrow> CBlockIndex \<Rightarrow> Params \<Rightarrow> int \<Rightarrow> int \<Rightarrow> int \<Rightarrow> error + int" where
  "ActualTimespan pindexLast pindexFirst params nHeight' nTargetTimespan nInterval =
    (let nActualTimespan = GetBlockTime pindexLast - GetBlockTime pindexFirst in
     if nHeight' \<ge> sint (nForkTwo params) then
       (let nInterval = nInterval * 4 in
        case LongWindowFirst 0 nInterval (Some pindexLast) of
          None \<Rightarrow> Inl NullDereference
        | Some pindexFirst \<Rightarrow>
            (let nActualTimespanLong =
                   to_int (c_div (GetBlockTime pindexLast - GetBlockTime pindexFirst) 4);
                 nActualTimespanAvg = to_int (c_div (nActualTimespan + nActualTimespanLong) 2);
                 nActualTimespan = to_int (nActualTimespanAvg + to_int (3 * nTargetTimespan))
             in Inr (c_div nActualTimespan 4)))
     else Inr nActualTimespan)"

text \<open>
  Lines 81 to 95: the bounds of the adjustment step, by fork regime. Both are \<^verbatim>\<open>int\<close>
  variables and their products are formed in \<^verbatim>\<open>int\<close>.
\<close>

definition ActualTimespanMax :: "Params \<Rightarrow> int \<Rightarrow> int \<Rightarrow> int" where
  "ActualTimespanMax params nHeight' nTargetTimespan =
    (let nActualTimespanMax = to_int (nTargetTimespan * 4);
         nActualTimespanMax =
           (if nHeight' \<ge> sint (nForkOne params) \<and> nHeight' < sint (nForkTwo params)
            then c_div (to_int (nTargetTimespan * 99)) 70 else nActualTimespanMax);
         nActualTimespanMax =
           (if nHeight' \<ge> sint (nForkTwo params)
            then c_div (to_int (nTargetTimespan * 494)) 453 else nActualTimespanMax)
     in nActualTimespanMax)"

definition ActualTimespanMin :: "Params \<Rightarrow> int \<Rightarrow> int \<Rightarrow> int" where
  "ActualTimespanMin params nHeight' nTargetTimespan =
    (let nActualTimespanMin = c_div nTargetTimespan 4;
         nActualTimespanMin =
           (if nHeight' \<ge> sint (nForkOne params) \<and> nHeight' < sint (nForkTwo params)
            then c_div (to_int (nTargetTimespan * 70)) 99 else nActualTimespanMin);
         nActualTimespanMin =
           (if nHeight' \<ge> sint (nForkTwo params)
            then c_div (to_int (nTargetTimespan * 453)) 494 else nActualTimespanMin)
     in nActualTimespanMin)"

text \<open>Lines 97 to 101: the limit of the adjustment step.\<close>

definition LimitAdjustmentStep :: "Params \<Rightarrow> int \<Rightarrow> int \<Rightarrow> int \<Rightarrow> int" where
  "LimitAdjustmentStep params nHeight' nTargetTimespan nActualTimespan =
    (let nActualTimespanMax = ActualTimespanMax params nHeight' nTargetTimespan;
         nActualTimespanMin = ActualTimespanMin params nHeight' nTargetTimespan;
         nActualTimespan = (if nActualTimespan < nActualTimespanMin
                            then nActualTimespanMin else nActualTimespan);
         nActualTimespan = (if nActualTimespan > nActualTimespanMax
                            then nActualTimespanMax else nActualTimespan)
     in nActualTimespan)"

text \<open>
  Lines 104 to 113: the rescaled target. \<^verbatim>\<open>bits()\<close> is unsigned, so the subtraction
  in the shift test wraps; \<^verbatim>\<open>*=\<close> takes a \<^verbatim>\<open>uint32_t\<close> and \<^verbatim>\<open>/=\<close> a 256-bit
  magnitude built from a \<^verbatim>\<open>uint64_t\<close>, and throws when it is zero.
\<close>

definition fShift :: "256 word \<Rightarrow> 256 word \<Rightarrow> bool" where
  "fShift bnNew bnPowLimit = (int (bits bnNew) > to_uint32 (int (bits bnPowLimit) - 1))"

definition Rescale :: "256 word \<Rightarrow> 256 word \<Rightarrow> int \<Rightarrow> int \<Rightarrow> error + 256 word" where
  "Rescale bnNew0 bnPowLimit nActualTimespan nTargetTimespan =
    (let bnNew = (if fShift bnNew0 bnPowLimit then drop_bit 1 bnNew0 else bnNew0);
         bnNew = bnNew * word_of_int (to_uint32 nActualTimespan)
     in if to_uint64 nTargetTimespan = 0 then Inl UintError
        else
          (let bnNew = bnNew div word_of_int (to_uint64 nTargetTimespan);
               bnNew = (if fShift bnNew0 bnPowLimit then push_bit 1 bnNew else bnNew)
           in Inr bnNew))"

text \<open>Lines 104 to 118: decode, rescale, cap at the limit, encode.\<close>

definition Retarget :: "32 word \<Rightarrow> Params \<Rightarrow> int \<Rightarrow> int \<Rightarrow> error + 32 word" where
  "Retarget nBits' params nActualTimespan nTargetTimespan =
    (let bnNew = fst (SetCompact nBits');
         bnPowLimit = powLimit params
     in case Rescale bnNew bnPowLimit nActualTimespan nTargetTimespan of
          Inl e \<Rightarrow> Inl e
        | Inr bnNew \<Rightarrow>
            (let bnNew = (if bnNew > bnPowLimit then bnPowLimit else bnNew)
             in Inr (GetCompact bnNew)))"

text \<open>Lines 54 to 118: the retarget path.\<close>

definition RetargetPath :: "CBlockIndex \<Rightarrow> Params \<Rightarrow> int \<Rightarrow> int \<Rightarrow> int \<Rightarrow> error + 32 word" where
  "RetargetPath pindexLast params nHeight' nTargetTimespan nInterval =
    (let nHeightFirst = to_int (sint (nHeight pindexLast) - (nInterval - 1)) in
     if \<not> nHeightFirst \<ge> 0 then Inl AssertionFailed
     else
       case GetAncestor pindexLast nHeightFirst of
         None \<Rightarrow> Inl AssertionFailed
       | Some pindexFirst \<Rightarrow>
           if fPowNoRetargeting params then Inr (nBits pindexLast)
           else
             (case ActualTimespan pindexLast pindexFirst params nHeight' nTargetTimespan
                     nInterval of
                Inl e \<Rightarrow> Inl e
              | Inr nActualTimespan \<Rightarrow>
                  Retarget (nBits pindexLast) params
                    (LimitAdjustmentStep params nHeight' nTargetTimespan nActualTimespan)
                    nTargetTimespan))"

text \<open>
  The whole function. \<open>pblock_nTime\<close> is the time field of the candidate header, the
  only part of \<^verbatim>\<open>pblock\<close> that is read.
\<close>

definition GetNextWorkRequired ::
  "CBlockIndex option \<Rightarrow> 32 word \<Rightarrow> Params \<Rightarrow> error + 32 word" where
  "GetNextWorkRequired pindexLast' pblock_nTime params =
    (case pindexLast' of
       None \<Rightarrow> Inl AssertionFailed
     | Some pindexLast \<Rightarrow>
         (let nHeight' = NextHeight pindexLast;
              nTargetTimespan = TargetTimespan params nHeight';
              nTargetSpacing = sint (nPowTargetSpacing params)
          in if nTargetSpacing = 0 then Inl DivisionByZero
             else
               (let nInterval = Interval params nHeight';
                    fHardFork = (nHeight' = sint (nForkOne params)
                                 \<or> nHeight' = sint (nForkTwo params))
                in if nInterval = 0 then Inl DivisionByZero
                   else if c_mod (sint (nHeight pindexLast) + 1) nInterval \<noteq> 0 \<and> \<not> fHardFork
                   then Inr (NoRetarget pindexLast pblock_nTime params nInterval)
                   else RetargetPath pindexLast params nHeight' nTargetTimespan nInterval)))"

subsection \<open>CheckProofOfWork\<close>

definition CheckProofOfWork :: "256 word \<Rightarrow> 32 word \<Rightarrow> Params \<Rightarrow> bool" where
  "CheckProofOfWork hash nBits' params =
    (case SetCompact nBits' of
       (bnTarget, fNegative, fOverflow) \<Rightarrow>
         if fNegative \<or> bnTarget = 0 \<or> fOverflow \<or> bnTarget > powLimit params then False
         else if hash > bnTarget then False
         else True)"

subsection \<open>The chain below an index, and the timespan as the spec words it\<close>

text \<open>The index and the indexes reachable from it through \<open>pprev\<close>.\<close>

fun chain_nodes :: "CBlockIndex \<Rightarrow> CBlockIndex list" where
  "chain_nodes (CBlockIndex h t b None) = [CBlockIndex h t b None]"
| "chain_nodes (CBlockIndex h t b (Some q)) = CBlockIndex h t b (Some q) # chain_nodes q"

text \<open>
  The damped timespan in the words of the spec, for comparison with \<open>ActualTimespan\<close>:
  \<open>((shortTimespan + longTimespan) / 2 + 3 * effectiveTimespan) / 4\<close> in integer
  arithmetic, with no conversion in between.
\<close>

definition spec_damped_timespan ::
  "CBlockIndex \<Rightarrow> CBlockIndex \<Rightarrow> CBlockIndex \<Rightarrow> int \<Rightarrow> int" where
  "spec_damped_timespan pindexLast pindexFirst pindexLong nTargetTimespan =
    (let shortTimespan = GetBlockTime pindexLast - GetBlockTime pindexFirst;
         longTimespan = c_div (GetBlockTime pindexLast - GetBlockTime pindexLong) 4
     in c_div (c_div (shortTimespan + longTimespan) 2 + 3 * nTargetTimespan) 4)"

subsection \<open>Concrete inputs\<close>

text \<open>
  Parameters with a spacing of 9450 seconds, so that a retarget interval is 32 blocks
  before the first fork (at height 100) and 2 blocks from the second fork (at height 200)
  on, and a genesis block at the limit.
\<close>

definition demo_params :: Params where
  "demo_params =
    \<lparr>powLimit = 0x00000fffffffffffffffffffffffffffffffffffffffffffffffffffffffffff,
      nPowTargetTimespan = 302400, nPowTargetSpacing = 9450,
     fPowAllowMinDifficultyBlocks = False, fPowNoRetargeting = False,
     nForkOne = 100, nForkTwo = 200\<rparr>"

definition genesis :: CBlockIndex where
  "genesis = CBlockIndex 0 0 0x1e0fffff None"

definition block1 :: CBlockIndex where
  "block1 = CBlockIndex 1 9450 0x1e0fffff (Some genesis)"

definition block2 :: CBlockIndex where
  "block2 = CBlockIndex 2 18900 0x1e0fffff (Some block1)"

text \<open>The first fork at height 3, with a spacing that makes its interval 2 blocks.\<close>

definition fork_params :: Params where
  "fork_params = demo_params\<lparr>nPowTargetSpacing := 37800, nForkOne := 3\<rparr>"

text \<open>
  Both forks at height 0, so that the interval is 2 blocks and the long window 8, and a
  chain of ten blocks that carry the time 0 up to height 8 and the largest 32-bit time at
  height 9.
\<close>

definition fork_two_params :: Params where
  "fork_two_params = demo_params\<lparr>nForkOne := 0, nForkTwo := 0\<rparr>"

definition late_long :: CBlockIndex where
  "late_long = CBlockIndex 1 0 0x1e0fffff (Some genesis)"

definition late_first :: CBlockIndex where
  "late_first = CBlockIndex 8 0 0x1e0fffff (Some (CBlockIndex 7 0 0x1e0fffff
     (Some (CBlockIndex 6 0 0x1e0fffff (Some (CBlockIndex 5 0 0x1e0fffff
     (Some (CBlockIndex 4 0 0x1e0fffff (Some (CBlockIndex 3 0 0x1e0fffff
     (Some (CBlockIndex 2 0 0x1e0fffff (Some late_long)))))))))))))"

definition late_tip :: CBlockIndex where
  "late_tip = CBlockIndex 9 4294967295 0x1e0fffff (Some late_first)"


text \<open>
  The min-difficulty rule switched on, and a chain of two blocks whose genesis block
  records bits one step above the limit.
\<close>

definition min_params :: Params where
  "min_params = demo_params\<lparr>fPowAllowMinDifficultyBlocks := True\<rparr>"

definition high_genesis :: CBlockIndex where
  "high_genesis = CBlockIndex 0 0 0x1e100000 None"

definition high_block1 :: CBlockIndex where
  "high_block1 = CBlockIndex 1 9450 0x1e0fffff (Some high_genesis)"

text \<open>A configured timespan of \<open>2 ^ 30\<close> seconds, and one of \<open>- 8\<close> seconds.\<close>

definition wide_params :: Params where
  "wide_params =
    demo_params\<lparr>nPowTargetTimespan := 1073741824, nPowTargetSpacing := 268435456\<rparr>"

definition negative_params :: Params where
  "negative_params = demo_params\<lparr>nPowTargetTimespan := - 8, nPowTargetSpacing := 2\<rparr>"

section \<open>Properties\<close>

subsection \<open>Integer helpers\<close>

lemma c_div_zero [simp]: "c_div a 0 = 0"
  by (simp add: c_div_def)

lemma c_div_nonneg: "0 \<le> a \<Longrightarrow> 0 < b \<Longrightarrow> c_div a b = a div b"
  by (simp add: c_div_def sgn_if)

lemma c_div_eq_0_iff:
  assumes "0 \<le> a" "0 < b"
  shows "c_div a b = 0 \<longleftrightarrow> a < b"
proof -
  have "a div b = 0 \<longleftrightarrow> a < b"
    using assms by (auto simp add: zdiv_eq_0_iff)
  then show ?thesis
    using assms by (auto simp add: c_div_def sgn_if)
qed

lemma c_div_4_bound:
  assumes "- 4294967296 < x" "x < 4294967296"
  shows "- (2 ^ 31) \<le> c_div x 4 \<and> c_div x 4 < 2 ^ 31"
proof (cases "0 \<le> x")
  case True
  then have "c_div x 4 = x div 4"
    by (simp add: c_div_def sgn_if)
  with True assms show ?thesis by simp linarith
next
  case False
  then have "c_div x 4 = - ((- x) div 4)"
    by (simp add: c_div_def sgn_if)
  with False assms show ?thesis by simp linarith
qed

lemma to_int_id: "- (2 ^ 31) \<le> x \<Longrightarrow> x < 2 ^ 31 \<Longrightarrow> to_int x = x"
  by (simp add: to_int_def)

lemma sint32_bounds:
  fixes w :: "32 word"
  shows "- 2147483648 \<le> sint w" "sint w < 2147483648"
  using sint_ge [of w] sint_lt [of w] by simp_all

lemma long_timespan_fits:
  fixes a b :: "32 word"
  shows "to_int (c_div (uint a - uint b) 4) = c_div (uint a - uint b) 4"
proof -
  have "0 \<le> uint a" "uint a < 4294967296" "0 \<le> uint b" "uint b < 4294967296"
    using uint_lt2p [of a] uint_lt2p [of b] by simp_all
  then have "- 4294967296 < uint a - uint b" "uint a - uint b < 4294967296"
    by linarith+
  then have "- (2 ^ 31) \<le> c_div (uint a - uint b) 4 \<and> c_div (uint a - uint b) 4 < 2 ^ 31"
    by (rule c_div_4_bound)
  then show ?thesis
    by (simp add: to_int_id)
qed


subsection \<open>The structure of GetNextWorkRequired\<close>

lemma TargetTimespan_cases:
  "TargetTimespan params h =
    (if h \<ge> sint (nForkTwo params) then 18900
     else if h \<ge> sint (nForkOne params) then 75600
     else sint (nPowTargetTimespan params))"
  by (simp add: TargetTimespan_def Let_def c_div_def)

lemma TargetTimespan_ForkTwo:
  "nHeight' \<ge> sint (nForkTwo params) \<Longrightarrow> TargetTimespan params nHeight' = 18900"
  by (simp add: TargetTimespan_def Let_def c_div_def)

lemma GetNextWorkRequired_unfold:
  assumes "Interval params (NextHeight pindexLast) \<noteq> 0"
  shows "GetNextWorkRequired (Some pindexLast) pblock_nTime params =
    (if c_mod (NextHeight pindexLast) (Interval params (NextHeight pindexLast)) \<noteq> 0
        \<and> NextHeight pindexLast \<noteq> sint (nForkOne params)
        \<and> NextHeight pindexLast \<noteq> sint (nForkTwo params)
     then Inr (NoRetarget pindexLast pblock_nTime params (Interval params (NextHeight pindexLast)))
     else RetargetPath pindexLast params (NextHeight pindexLast)
            (TargetTimespan params (NextHeight pindexLast))
            (Interval params (NextHeight pindexLast)))"
proof -
  have "sint (nPowTargetSpacing params) \<noteq> 0"
    using assms by (auto simp: Interval_def)
  then show ?thesis
    using assms by (simp add: GetNextWorkRequired_def Let_def NextHeight_def)
qed

lemma Rescale_not_DivisionByZero:
  "Rescale a b c d \<noteq> Inl DivisionByZero"
  by (simp add: Rescale_def Let_def)

lemma Retarget_not_DivisionByZero:
  "Retarget a b c d \<noteq> Inl DivisionByZero"
  using Rescale_not_DivisionByZero [of "fst (SetCompact a)" "powLimit b" c d]
  by (auto simp add: Retarget_def Let_def split: sum.splits)

lemma ActualTimespan_not_DivisionByZero:
  "ActualTimespan a b c d e f \<noteq> Inl DivisionByZero"
  by (simp add: ActualTimespan_def Let_def split: option.splits)

lemma RetargetPath_not_DivisionByZero:
  "RetargetPath a b c d e \<noteq> Inl DivisionByZero"
  by (auto simp add: RetargetPath_def Let_def Retarget_not_DivisionByZero
      ActualTimespan_not_DivisionByZero split: option.splits sum.splits)

lemma GetNextWorkRequired_DivisionByZero_iff:
  "GetNextWorkRequired (Some pindexLast) pblock_nTime params = Inl DivisionByZero
     \<longleftrightarrow> Interval params (NextHeight pindexLast) = 0"
proof (cases "Interval params (NextHeight pindexLast) = 0")
  case True
  then show ?thesis
    by (simp add: GetNextWorkRequired_def Let_def)
next
  case False
  then show ?thesis
    by (simp add: GetNextWorkRequired_unfold RetargetPath_not_DivisionByZero)
qed


text \<open>The loop of lines 68 and 69 takes \<open>nInterval\<close> steps back, or ends on the null pointer.\<close>

lemma pprev_steps_None [simp]: "pprev_steps k None = None"
  by (induction k) simp_all

lemma LongWindowFirst_steps:
  "LongWindowFirst i nInterval p = pprev_steps (nat (nInterval - i)) p"
proof (induction i nInterval p rule: LongWindowFirst.induct)
  case (1 i nInterval p)
  show ?case
  proof (cases p)
    case None
    then show ?thesis by (simp add: LongWindowFirst.simps [of i])
  next
    case (Some b)
    show ?thesis
    proof (cases "i < nInterval")
      case True
      then have "nat (nInterval - i) = Suc (nat (nInterval - (i + 1)))"
        by simp
      with 1 [OF Some True] Some True show ?thesis
        by (simp add: LongWindowFirst.simps [of i])
    next
      case False
      with Some show ?thesis
        by (simp add: LongWindowFirst.simps [of i])
    qed
  qed
qed

lemma GetAncestor_Some:
  assumes "GetAncestor pindex height = Some b"
  shows "0 \<le> height" "height \<le> sint (nHeight pindex)"
  using assms by (auto simp add: GetAncestor_def split: if_splits)

lemma ActualTimespan_ForkTwo:
  assumes "nHeight' \<ge> sint (nForkTwo params)"
    and "pprev_steps (nat (nInterval * 4)) (Some pindexLast) = Some pindexLong"
  shows "ActualTimespan pindexLast pindexFirst params nHeight' nTargetTimespan nInterval =
    Inr (c_div (to_int (to_int (c_div ((GetBlockTime pindexLast - GetBlockTime pindexFirst)
            + c_div (GetBlockTime pindexLast - GetBlockTime pindexLong) 4) 2)
          + to_int (3 * nTargetTimespan))) 4)"
  using assms
  by (simp add: ActualTimespan_def Let_def LongWindowFirst_steps GetBlockTime_def
      long_timespan_fits)

text \<open>
  Where the average and the sum of line 77 fit an \<^verbatim>\<open>int\<close>, the measured timespan is the
  one the spec words.
\<close>

lemma ActualTimespan_agrees:
  assumes "nHeight' \<ge> sint (nForkTwo params)"
    and "pprev_steps (nat (nInterval * 4)) (Some pindexLast) = Some pindexLong"
    and "avg = c_div ((GetBlockTime pindexLast - GetBlockTime pindexFirst)
            + c_div (GetBlockTime pindexLast - GetBlockTime pindexLong) 4) 2"
    and "- (2 ^ 31) \<le> avg" "avg < 2 ^ 31"
    and "- (2 ^ 31) \<le> 3 * nTargetTimespan" "3 * nTargetTimespan < 2 ^ 31"
    and "- (2 ^ 31) \<le> avg + 3 * nTargetTimespan" "avg + 3 * nTargetTimespan < 2 ^ 31"
  shows "ActualTimespan pindexLast pindexFirst params nHeight' nTargetTimespan nInterval =
    Inr (spec_damped_timespan pindexLast pindexFirst pindexLong nTargetTimespan)"
proof -
  have "to_int avg = avg" "to_int (3 * nTargetTimespan) = 3 * nTargetTimespan"
    "to_int (avg + 3 * nTargetTimespan) = avg + 3 * nTargetTimespan"
    using assms(4-9) by (simp_all add: to_int_id)
  then show ?thesis
    using ActualTimespan_ForkTwo [OF assms(1,2), of pindexFirst nTargetTimespan]
    by (simp add: spec_damped_timespan_def Let_def assms(3) [symmetric])
qed

lemma ActualTimespan_exhausted:
  assumes "nHeight' \<ge> sint (nForkTwo params)"
    and "pprev_steps (nat (nInterval * 4)) (Some pindexLast) = None"
  shows "ActualTimespan pindexLast pindexFirst params nHeight' nTargetTimespan nInterval =
    Inl NullDereference"
  using assms by (simp add: ActualTimespan_def Let_def LongWindowFirst_steps)

lemma LimitAdjustmentStep_between:
  assumes "ActualTimespanMin params h T \<le> ActualTimespanMax params h T"
  shows "ActualTimespanMin params h T \<le> LimitAdjustmentStep params h T x
       \<and> LimitAdjustmentStep params h T x \<le> ActualTimespanMax params h T"
  using assms by (simp add: LimitAdjustmentStep_def Let_def)

lemma bounds_ordered:
  assumes "T = TargetTimespan params h" and "0 \<le> T" and "T * 4 < 2 ^ 31"
  shows "ActualTimespanMin params h T \<le> ActualTimespanMax params h T"
proof -
  have "to_int (T * 4) = T * 4"
    using assms(2,3) by (intro to_int_id) simp_all
  moreover have "c_div T 4 \<le> T * 4"
    using assms(2) by (simp add: c_div_nonneg)
  moreover have "h \<ge> sint (nForkTwo params) \<longrightarrow> T = 18900"
    and "h \<ge> sint (nForkOne params) \<and> h < sint (nForkTwo params) \<longrightarrow> T = 75600"
    using assms(1) by (simp_all add: TargetTimespan_cases)
  ultimately show ?thesis
    by (auto simp add: ActualTimespanMin_def ActualTimespanMax_def Let_def to_int_def
        c_div_def)
qed

subsection \<open>Bit length and the compact codec\<close>

lemma bits_nat_bound: "x < 2 ^ bits_nat x"
proof (induction x rule: bits_nat.induct)
  case (1 n)
  show ?case
  proof (cases "n = 0")
    case True
    then show ?thesis by (simp add: bits_nat.simps)
  next
    case False
    with 1 have "n div 2 < 2 ^ bits_nat (n div 2)" by simp
    then have "n < 2 * 2 ^ bits_nat (n div 2)" by linarith
    with False show ?thesis by (simp add: bits_nat.simps [of n])
  qed
qed

lemma bits_nat_le: "x < 2 ^ k \<Longrightarrow> bits_nat x \<le> k"
proof (induction x arbitrary: k rule: bits_nat.induct)
  case (1 n)
  show ?case
  proof (cases "n = 0")
    case True
    then show ?thesis by (simp add: bits_nat.simps)
  next
    case False
    with "1.prems" obtain j where k: "k = Suc j"
      by (cases k) auto
    with "1.prems" have "n div 2 < 2 ^ j" by auto
    with 1 False have "bits_nat (n div 2) \<le> j" by simp
    with False k show ?thesis by (simp add: bits_nat.simps [of n])
  qed
qed

lemma bits_le_256: "bits a \<le> 256"
proof -
  have "unat a < 2 ^ 256"
    using unsigned_less [of a] by simp
  then show ?thesis
    unfolding bits_def by (rule bits_nat_le)
qed

lemma size_bound:
  assumes "n = (bits_nat x + 7) div 8"
  shows "x < 2 ^ (8 * n)"
proof -
  have "bits_nat x \<le> 8 * n" using assms by linarith
  then have "(2::nat) ^ bits_nat x \<le> 2 ^ (8 * n)"
    by (simp add: power_increasing)
  with bits_nat_bound [of x] show ?thesis by linarith
qed

lemma mantissa_small:
  assumes "x < 2 ^ (8 * n)" "n \<le> 3"
  shows "x * 2 ^ (8 * (3 - n)) < (2::nat) ^ 24"
proof -
  have "x * 2 ^ (8 * (3 - n)) < 2 ^ (8 * n) * (2::nat) ^ (8 * (3 - n))"
    using assms(1) by simp
  also have "\<dots> = 2 ^ (8 * n + 8 * (3 - n))"
    by (simp add: power_add)
  also have "8 * n + 8 * (3 - n) = 24"
    using assms(2) by simp
  finally show ?thesis .
qed

lemma mantissa_large:
  assumes "x < 2 ^ (8 * n)" "n > 3"
  shows "x div 2 ^ (8 * (n - 3)) < (2::nat) ^ 24"
proof -
  have "8 * n = 8 * (n - 3) + 24"
    using assms(2) by simp
  then have "(2::nat) ^ (8 * n) = 2 ^ (8 * (n - 3)) * 2 ^ 24"
    by (simp add: power_add)
  with assms(1) have "x < 2 ^ (8 * (n - 3)) * (2::nat) ^ 24"
    by simp
  then show ?thesis
    by (simp add: less_mult_imp_div_less mult.commute)
qed

lemma sign_bit_iff:
  assumes "c < (2::nat) ^ 24"
  shows "(c div 2 ^ 23) mod 2 = 1 \<longleftrightarrow> 2 ^ 23 \<le> c"
proof -
  have "c div 2 ^ 23 < 2"
    using assms by (simp add: less_mult_imp_div_less)
  then have "c div 2 ^ 23 = 0 \<or> c div 2 ^ 23 = 1" by linarith
  then show ?thesis
    using assms by (auto simp add: div_eq_0_iff) 
qed

lemma mod_exponent_part:
  assumes "c < 2 ^ 23"
  shows "(c + n * 2 ^ 24) mod 2 ^ 23 = (c::nat)"
proof -
  have "n * 2 ^ 24 = (2 * n) * (2::nat) ^ 23" by simp
  then have "(c + n * 2 ^ 24) mod 2 ^ 23 = (c + (2 * n) * 2 ^ 23) mod 2 ^ 23" by (simp only:)
  also have "\<dots> = c mod 2 ^ 23" by (rule mod_mult_self1)
  also have "\<dots> = c" using assms by (rule mod_less)
  finally show ?thesis .
qed

lemma shift_small:
  assumes "n0 \<le> 2"
  shows "(x * 2 ^ (8 * (3 - n0))) div 2 ^ 8 = (x::nat) * 2 ^ (8 * (2 - n0))"
proof -
  from assms have "8 * (3 - n0) = 8 * (2 - n0) + 8" by simp
  then have "x * 2 ^ (8 * (3 - n0)) = (x * 2 ^ (8 * (2 - n0))) * 2 ^ 8"
    by (simp only: power_add mult.assoc)
  then show ?thesis by (simp only: ) simp
qed

lemma shift_large:
  assumes "n0 > 3"
  shows "((x::nat) div 2 ^ (8 * (n0 - 3))) div 2 ^ 8 * 2 ^ (8 * (n0 + 1 - 3)) \<le> x"
proof -
  from assms have "8 * (n0 + 1 - 3) = 8 * (n0 - 3) + 8" by simp
  then have e: "(2::nat) ^ (8 * (n0 + 1 - 3)) = 2 ^ (8 * (n0 - 3)) * 2 ^ 8"
    by (simp only: power_add)
  have "(x div 2 ^ (8 * (n0 - 3))) div 2 ^ 8 = x div (2 ^ (8 * (n0 - 3)) * 2 ^ 8)"
    by (simp only: div_mult2_eq)
  then show ?thesis
    unfolding e by (simp only: div_times_less_eq_dividend)
qed

lemma SetCompact_le:
  assumes r: "unat nCompact = c + n * 2 ^ 24" and c: "c < 2 ^ 23"
  shows "unat (fst (SetCompact nCompact))
           \<le> (if n \<le> 3 then c div 2 ^ (8 * (3 - n)) else c * 2 ^ (8 * (n - 3)))"
proof -
  have size: "unat nCompact div 2 ^ 24 = n"
    using r c by simp
  have word: "unat nCompact mod 2 ^ 23 = c"
    unfolding r using c by (rule mod_exponent_part)
  show ?thesis
  proof (cases "n \<le> 3")
    case True
    have "unat (word_of_nat (c div 2 ^ (8 * (3 - n))) :: 256 word) \<le> c div 2 ^ (8 * (3 - n))"
      by (simp add: unat_of_nat)
    with True show ?thesis
      unfolding SetCompact_def Let_def size word by simp
  next
    case False
    have "unat (push_bit (8 * (n - 3)) (word_of_nat c :: 256 word))
            \<le> push_bit (8 * (n - 3)) (unat (word_of_nat c :: 256 word))"
      by (simp add: unsigned_push_bit_eq take_bit_eq_mod)
    also have "\<dots> \<le> c * 2 ^ (8 * (n - 3))"
      by (simp add: push_bit_eq_mult unat_of_nat)
    finally show ?thesis
      using False unfolding SetCompact_def Let_def size word by simp
  qed
qed

lemma GetCompact_form:
  obtains c n where "c < 2 ^ 23" and "unat (GetCompact a) = c + n * 2 ^ 24"
    and "(if n \<le> 3 then c div 2 ^ (8 * (3 - n)) else c * 2 ^ (8 * (n - 3))) \<le> unat a"
proof -
  define x where "x = unat a"
  define n0 where "n0 = (bits a + 7) div 8"
  define c0 where "c0 = (if n0 \<le> 3 then (x * 2 ^ (8 * (3 - n0))) mod 2 ^ 32
                         else (x div 2 ^ (8 * (n0 - 3))) mod 2 ^ 32)"
  define fSign where "fSign \<longleftrightarrow> (c0 div 2 ^ 23) mod 2 = 1"
  define c where "c = (if fSign then c0 div 2 ^ 8 else c0)"
  define n where "n = (if fSign then n0 + 1 else n0)"
  have G: "GetCompact a = word_of_nat (c + n * 2 ^ 24)"
    by (simp add: GetCompact_def Let_def x_def n0_def c0_def fSign_def c_def n_def)
  have xb: "x < 2 ^ (8 * n0)"
    using size_bound [of n0 x] by (simp add: n0_def x_def bits_def)
  have n0b: "n0 \<le> 32"
    using bits_le_256 [of a] by (simp add: n0_def)
  have c0_eq: "c0 = (if n0 \<le> 3 then x * 2 ^ (8 * (3 - n0)) else x div 2 ^ (8 * (n0 - 3)))"
    and c0b: "c0 < 2 ^ 24"
  proof -
    have "(if n0 \<le> 3 then x * 2 ^ (8 * (3 - n0)) else x div 2 ^ (8 * (n0 - 3))) < 2 ^ 24"
      using mantissa_small [OF xb] mantissa_large [OF xb] by (cases "n0 \<le> 3") simp_all
    then show "c0 = (if n0 \<le> 3 then x * 2 ^ (8 * (3 - n0)) else x div 2 ^ (8 * (n0 - 3)))"
      and "c0 < 2 ^ 24"
      by (auto simp add: c0_def)
  qed
  have sign: "fSign \<longleftrightarrow> 2 ^ 23 \<le> c0"
    unfolding fSign_def using c0b by (rule sign_bit_iff)
  have cb: "c < 2 ^ 23"
  proof (cases fSign)
    case True
    have "c0 div 2 ^ 8 < 2 ^ 16"
      using c0b by (simp add: less_mult_imp_div_less)
    with True show ?thesis by (simp add: c_def)
  next
    case False
    with sign show ?thesis by (simp add: c_def)
  qed
  have nb: "n \<le> 33"
    using n0b by (simp add: n_def)
  define r where "r = c + n * 2 ^ 24"
  have "r < 2 ^ 32"
    using cb nb by (simp add: r_def)
  moreover have "unat (word_of_nat r :: 32 word) = r mod 2 ^ 32"
    by (simp only: unat_of_nat) simp
  ultimately have U: "unat (GetCompact a) = c + n * 2 ^ 24"
    unfolding G r_def [symmetric] by simp
  have le: "(if n \<le> 3 then c div 2 ^ (8 * (3 - n)) else c * 2 ^ (8 * (n - 3))) \<le> x"
  proof (cases fSign)
    case False
    then have "c = c0" "n = n0" by (simp_all add: c_def n_def)
    then show ?thesis
      by (simp add: c0_eq)
  next
    case True
    then have cn: "c = c0 div 2 ^ 8" "n = n0 + 1" by (simp_all add: c_def n_def)
    consider "n0 \<le> 2" | "n0 = 3" | "n0 > 3" by linarith
    then show ?thesis
    proof cases
      case 1
      then have "c = x * 2 ^ (8 * (2 - n0))"
        using shift_small [of n0 x] by (simp add: cn c0_eq)
      with 1 show ?thesis by (simp add: cn)
    next
      case 2
      then have "c = x div 2 ^ 8" by (simp add: cn c0_eq)
      with 2 show ?thesis by (simp add: cn)
    next
      case 3
      then have "c = (x div 2 ^ (8 * (n0 - 3))) div 2 ^ 8"
        by (simp add: cn c0_eq)
      then have "c * 2 ^ (8 * (n0 + 1 - 3)) \<le> x"
        using shift_large [OF 3, of x] by simp
      with 3 show ?thesis by (simp add: cn)
    qed
  qed
  from cb U le show ?thesis
    by (rule that [unfolded x_def [symmetric]])
qed

lemma bits_nat_eq:
  assumes "2 ^ k \<le> x" "x < 2 ^ Suc k"
  shows "bits_nat x = Suc k"
proof -
  have "bits_nat x \<le> Suc k"
    using assms(2) by (rule bits_nat_le)
  moreover have "\<not> bits_nat x \<le> k"
  proof
    assume "bits_nat x \<le> k"
    then have "(2::nat) ^ bits_nat x \<le> 2 ^ k"
      by (simp add: power_increasing)
    with bits_nat_bound [of x] assms(1) show False by linarith
  qed
  ultimately show ?thesis by linarith
qed

lemma bits_eq:
  assumes "2 ^ k \<le> unat a" "unat a < 2 ^ Suc k"
  shows "bits a = Suc k"
  unfolding bits_def using assms by (rule bits_nat_eq)

text \<open>The codec at small magnitudes, and a decoding that overflows.\<close>

lemma SetCompact_values:
  "SetCompact 0x01123456 = (0x12, False, False)"
  "SetCompact 0x03123456 = (0x123456, False, False)"
  "SetCompact 0x05009234 = (0x92340000, False, False)"
  "SetCompact 0x01803456 = (0, False, False)"
  "SetCompact 0x01fedcba = (0x7e, True, False)"
  "snd (snd (SetCompact 0xff123456))"
  by (simp_all add: SetCompact_def Let_def)

lemma GetCompact_values:
  "GetCompact 0x12 = 0x01120000"
  "GetCompact 0x123456 = 0x03123456"
  "GetCompact 0x92340000 = 0x05009234"
  "GetCompact 0x80 = 0x02008000"
proof -
  have "bits 0x12 = 5" "bits 0x123456 = 21" "bits 0x92340000 = 32" "bits 0x80 = 8"
    using bits_eq [of 4 "0x12"] bits_eq [of 20 "0x123456"] bits_eq [of 31 "0x92340000"]
      bits_eq [of 7 "0x80"]
    by simp_all
  then show "GetCompact 0x12 = 0x01120000" "GetCompact 0x123456 = 0x03123456"
    "GetCompact 0x92340000 = 0x05009234" "GetCompact 0x80 = 0x02008000"
    by (simp_all add: GetCompact_def Let_def)
qed

text \<open>Decoding an encoded magnitude never gives more than the magnitude.\<close>

lemma decode_encode_le: "fst (SetCompact (GetCompact a)) \<le> a"
proof -
  obtain c n where "c < 2 ^ 23" and "unat (GetCompact a) = c + n * 2 ^ 24"
    and "(if n \<le> 3 then c div 2 ^ (8 * (3 - n)) else c * 2 ^ (8 * (n - 3))) \<le> unat a"
    by (rule GetCompact_form)
  then have "unat (fst (SetCompact (GetCompact a))) \<le> unat a"
    using SetCompact_le [of "GetCompact a" c n] by linarith
  then show ?thesis
    by (simp add: word_le_nat_alt)
qed

lemma bits_pos: "a \<noteq> 0 \<Longrightarrow> 0 < bits a"
  by (simp add: bits_def bits_nat.simps [of "unat a"] unat_eq_0)

lemma fShift_iff:
  assumes "bnPowLimit \<noteq> 0"
  shows "fShift bnNew bnPowLimit \<longleftrightarrow> int (bits bnNew) > int (bits bnPowLimit) - 1"
proof -
  have "0 < bits bnPowLimit" "bits bnPowLimit \<le> 256"
    using assms by (simp_all add: bits_pos bits_le_256)
  then have "to_uint32 (int (bits bnPowLimit) - 1) = int (bits bnPowLimit) - 1"
    by (simp add: to_uint32_def)
  then show ?thesis
    by (simp add: fShift_def)
qed


subsection \<open>The chain below an index\<close>

lemma self_in_chain: "pindex \<in> set (chain_nodes pindex)"
  by (induction pindex rule: chain_nodes.induct) simp_all

lemma LastNonSpecial_in_chain:
  "LastNonSpecial nInterval nProofOfWorkLimit pindex \<in> set (chain_nodes pindex)"
  by (induction nInterval nProofOfWorkLimit pindex rule: LastNonSpecial.induct) simp_all

lemma Retarget_le:
  assumes "Retarget nBits' params nActualTimespan nTargetTimespan = Inr r"
  shows "fst (SetCompact r) \<le> powLimit params"
proof -
  from assms obtain bnNew where
    r: "r = GetCompact (if bnNew > powLimit params then powLimit params else bnNew)"
    by (auto simp add: Retarget_def Let_def split: sum.splits)
  have "fst (SetCompact r) \<le> (if bnNew > powLimit params then powLimit params else bnNew)"
    unfolding r by (rule decode_encode_le)
  also have "\<dots> \<le> powLimit params"
    by (simp add: not_less)
  finally show ?thesis .
qed

subsection \<open>Values at the concrete inputs\<close>

lemmas demo_eval =
  demo_params_def fork_params_def fork_two_params_def min_params_def wide_params_def
  negative_params_def genesis_def block1_def block2_def
  NextHeight_def Interval_def TargetTimespan_def c_div_def c_mod_def Let_def

lemma SetCompact_limit:
  "SetCompact 0x1e0fffff = (0xfffff000000000000000000000000000000000000000000000000000000, False, False)"
  by (simp add: SetCompact_def Let_def)

lemma bits_limit_target:
  "bits 0xfffff000000000000000000000000000000000000000000000000000000 = 236"
  using bits_eq [of 235 "0xfffff000000000000000000000000000000000000000000000000000000"] by simp

lemma bits_powLimit:
  "bits 0x00000fffffffffffffffffffffffffffffffffffffffffffffffffffffffffff = 236"
  using bits_eq [of 235 "0x00000fffffffffffffffffffffffffffffffffffffffffffffffffffffffffff"] by simp

lemma GetCompact_powLimit:
  "GetCompact 0x00000fffffffffffffffffffffffffffffffffffffffffffffffffffffffffff = 0x1e0fffff"
  by (simp add: GetCompact_def bits_powLimit)

text \<open>The retarget at the first fork, for the block after \<open>block2\<close>.\<close>

lemma Rescale_fork_example:
  "Rescale 0xfffff000000000000000000000000000000000000000000000000000000
     0x00000fffffffffffffffffffffffffffffffffffffffffffffffffffffffffff 53454 75600
   = Inr 0xb502119e79e79e79e79e79e79e79e79e79e79e79e79e79e79e79e79e79e"
  by (simp add: Rescale_def fShift_def bits_limit_target bits_powLimit to_uint32_def
      to_uint64_def)

lemma bits_fork_example:
  "bits 0xb502119e79e79e79e79e79e79e79e79e79e79e79e79e79e79e79e79e79e = 236"
  using bits_eq [of 235 "0xb502119e79e79e79e79e79e79e79e79e79e79e79e79e79e79e79e79e79e"] by simp

lemma GetCompact_fork_example:
  "GetCompact 0xb502119e79e79e79e79e79e79e79e79e79e79e79e79e79e79e79e79e79e = 0x1e0b5021"
  by (simp add: GetCompact_def bits_fork_example)

lemma Retarget_fork_example:
  "Retarget 0x1e0fffff fork_params 53454 75600 = Inr 0x1e0b5021"
  by (simp add: Retarget_def SetCompact_limit Rescale_fork_example GetCompact_fork_example
      fork_params_def demo_params_def)

lemma LimitAdjustmentStep_fork_example:
  "LimitAdjustmentStep fork_params 3 75600 9450 = 53454"
  by (simp add: LimitAdjustmentStep_def ActualTimespanMax_def ActualTimespanMin_def
      fork_params_def demo_params_def c_div_def to_int_def)

lemma RetargetPath_fork_example:
  "RetargetPath block2 fork_params 3 75600 2 = Inr 0x1e0b5021"
  by (simp add: RetargetPath_def GetAncestor_def ActualTimespan_def GetBlockTime_def to_int_def
      Retarget_fork_example LimitAdjustmentStep_fork_example block2_def block1_def,
      simp add: fork_params_def demo_params_def)

lemma fork_header:
  "NextHeight block2 = 3" "sint (nForkOne fork_params) = 3" "sint (nForkTwo fork_params) = 200"
  "TargetTimespan fork_params 3 = 75600" "Interval fork_params 3 = 2" "c_mod 3 2 = 1"
  by (simp_all add: demo_eval)

lemma GetNextWorkRequired_fork_example:
  "GetNextWorkRequired (Some block2) 0 fork_params = Inr 0x1e0b5021"
  by (simp add: GetNextWorkRequired_unfold fork_header RetargetPath_fork_example)

text \<open>The retargets after the second fork, for the block after each ten-block chain.\<close>

lemma Rescale_late:
  "Rescale 0xfffff000000000000000000000000000000000000000000000000000000
     0x00000fffffffffffffffffffffffffffffffffffffffffffffffffffffffffff 17331 18900
   = Inr 0xeabf6a18618618618618618618618618618618618618618618618618618"
  by (simp add: Rescale_def fShift_def bits_limit_target bits_powLimit to_uint32_def
      to_uint64_def)

lemma bits_late:
  "bits 0xeabf6a18618618618618618618618618618618618618618618618618618 = 236"
  using bits_eq [of 235 "0xeabf6a18618618618618618618618618618618618618618618618618618"] by simp

lemma GetCompact_late:
  "GetCompact 0xeabf6a18618618618618618618618618618618618618618618618618618 = 0x1e0eabf6"
  by (simp add: GetCompact_def bits_late)

lemma Retarget_late:
  "Retarget 0x1e0fffff fork_two_params 17331 18900 = Inr 0x1e0eabf6"
  by (simp add: Retarget_def SetCompact_limit Rescale_late GetCompact_late
      fork_two_params_def demo_params_def)

lemma fork_two_header:
  "Interval fork_two_params 10 = 2" "TargetTimespan fork_two_params 10 = 18900"
  "c_mod 10 2 = 0" "sint (nForkTwo fork_two_params) = 0" "sint (nForkOne fork_two_params) = 0"
  "\<not> fPowNoRetargeting fork_two_params"
  by (simp_all add: demo_eval)

lemma LimitAdjustmentStep_fork_two:
  "LimitAdjustmentStep fork_two_params 10 18900 (- 402639009) = 17331"
  "LimitAdjustmentStep fork_two_params 10 18900 671102814 = 20610"
  by (simp_all add: LimitAdjustmentStep_def ActualTimespanMax_def ActualTimespanMin_def
      fork_two_params_def demo_params_def c_div_def to_int_def)

lemma late_walks:
  "NextHeight late_tip = 10" "sint (nHeight late_tip) = 9"
  "GetAncestor late_tip 8 = Some late_first"
  "pprev_steps 8 (Some late_tip) = Some late_long"
  by (simp_all add: NextHeight_def GetAncestor_def late_tip_def late_first_def
      eval_nat_numeral)

lemma late_times:
  "GetBlockTime late_tip = 4294967295" "GetBlockTime late_first = 0"
  "GetBlockTime late_long = 0"
  by (simp_all add: GetBlockTime_def late_tip_def late_first_def late_long_def)

lemma ActualTimespan_late:
  "ActualTimespan late_tip late_first fork_two_params 10 18900 2 = Inr (- 402639009)"
proof -
  have "pprev_steps (nat (2 * 4)) (Some late_tip) = Some late_long"
    by (simp add: late_walks)
  moreover have "10 \<ge> sint (nForkTwo fork_two_params)"
    by (simp add: fork_two_header)
  ultimately have "ActualTimespan late_tip late_first fork_two_params 10 18900 2 =
      Inr (c_div (to_int (to_int (c_div ((GetBlockTime late_tip - GetBlockTime late_first)
            + c_div (GetBlockTime late_tip - GetBlockTime late_long) 4) 2)
          + to_int (3 * 18900))) 4)"
    by (rule ActualTimespan_ForkTwo [rotated])
  then show ?thesis
    by (simp add: late_times c_div_def to_int_def)
qed

lemma GetNextWorkRequired_late:
  "GetNextWorkRequired (Some late_tip) 0 fork_two_params = Inr 0x1e0eabf6"
proof -
  have "RetargetPath late_tip fork_two_params 10 18900 2 = Inr 0x1e0eabf6"
    by (simp add: RetargetPath_def late_walks to_int_def fork_two_header ActualTimespan_late
        LimitAdjustmentStep_fork_two, simp add: late_tip_def Retarget_late)
  then show ?thesis
    by (simp add: GetNextWorkRequired_unfold late_walks fork_two_header)
qed

section \<open>The claims\<close>

subsection \<open>C1: CheckProofOfWork\<close>

text \<open>
  C1. \<open>CheckProofOfWork hash nBits params\<close> is true exactly when the decoding of
  \<open>nBits\<close> is not negative, has not overflowed, gives a target above 0 and at most
  \<open>powLimit\<close>, and \<open>hash\<close> is at most that target. The function is total, its result
  is a boolean, and it depends on its three arguments only.
\<close>

theorem CheckProofOfWork_iff:
  "CheckProofOfWork hash nBits' params =
    (case SetCompact nBits' of
       (bnTarget, fNegative, fOverflow) \<Rightarrow>
         \<not> fNegative \<and> \<not> fOverflow \<and> 0 < bnTarget \<and> bnTarget \<le> powLimit params
         \<and> hash \<le> bnTarget)"
  by (auto simp: CheckProofOfWork_def word_neq_0_conv not_less split: prod.splits)

theorem CheckProofOfWork_iff_witness:
  "CheckProofOfWork 1 0x1e0fffff demo_params \<and> \<not> CheckProofOfWork 1 0x1e8fffff demo_params
   \<and> \<not> CheckProofOfWork (2 ^ 236) 0x1e0fffff demo_params"
  using CheckProofOfWork_iff [of 1 "0x1e0fffff" demo_params]
    CheckProofOfWork_iff [of 1 "0x1e8fffff" demo_params]
    CheckProofOfWork_iff [of "2 ^ 236" "0x1e0fffff" demo_params]
  by (simp add: SetCompact_def demo_params_def Let_def)

subsection \<open>C2: the result is at most the limit\<close>

text \<open>
  C2, as amended. When the bits of the previous index decode to at most \<open>powLimit\<close> and,
  under the min-difficulty rule, so do the bits of the index at which the walk back from
  the previous index stops, the bits that \<open>GetNextWorkRequired\<close> returns decode to at
  most \<open>powLimit\<close>: the retarget path caps the rescaled target before encoding it and
  encoding never rounds up; the other paths return the bits of the previous index, of the
  index the walk stops at, or the encoded limit.
\<close>

theorem result_at_most_powLimit:
  assumes "fst (SetCompact (nBits pindexLast)) \<le> powLimit params"
    and "fPowAllowMinDifficultyBlocks params \<Longrightarrow>
           fst (SetCompact (nBits (LastNonSpecial (Interval params (NextHeight pindexLast))
                  (GetCompact (powLimit params)) pindexLast))) \<le> powLimit params"
    and "GetNextWorkRequired (Some pindexLast) pblock_nTime params = Inr nBitsNext"
  shows "fst (SetCompact nBitsNext) \<le> powLimit params"
proof -
  let ?h = "NextHeight pindexLast"
  let ?i = "Interval params ?h"
  have i: "?i \<noteq> 0"
    using assms(3) GetNextWorkRequired_DivisionByZero_iff [of pindexLast pblock_nTime params]
    by auto
  show ?thesis
  proof (cases "c_mod ?h ?i \<noteq> 0 \<and> ?h \<noteq> sint (nForkOne params) \<and> ?h \<noteq> sint (nForkTwo params)")
    case True
    with assms(3) i have r: "nBitsNext = NoRetarget pindexLast pblock_nTime params ?i"
      by (simp add: GetNextWorkRequired_unfold)
    show ?thesis
      unfolding r NoRetarget_def Let_def
      using assms(1,2) decode_encode_le by simp
  next
    case False
    with assms(3) i have r: "RetargetPath pindexLast params ?h (TargetTimespan params ?h) ?i
        = Inr nBitsNext"
      by (simp add: GetNextWorkRequired_unfold)
    then show ?thesis
      using assms(1)
      by (auto simp add: RetargetPath_def Let_def split: if_splits option.splits sum.splits
          dest: Retarget_le)
  qed
qed

theorem result_at_most_powLimit_witness:
  "fst (SetCompact (nBits block1)) \<le> powLimit min_params
   \<and> LastNonSpecial 32 0x1e0fffff block1 = genesis
   \<and> fst (SetCompact (nBits genesis)) \<le> powLimit min_params
   \<and> GetNextWorkRequired (Some block1) 0 min_params = Inr 0x1e0fffff
   \<and> fst (SetCompact 0x1e0fffff) \<le> powLimit min_params"
proof -
  have h: "Interval min_params (NextHeight block1) = 32"
    "GetCompact (powLimit min_params) = 0x1e0fffff"
    "c_mod (NextHeight block1) 32 = 2"
    by (simp_all add: demo_eval GetCompact_powLimit)
  have w: "LastNonSpecial 32 0x1e0fffff block1 = genesis"
    by (simp add: block1_def genesis_def c_mod_def)
  have l: "fst (SetCompact 0x1e0fffff) \<le> powLimit min_params"
    by (simp add: SetCompact_limit min_params_def demo_params_def)
  have b: "nBits block1 = 0x1e0fffff" "nBits genesis = 0x1e0fffff"
    by (simp_all add: block1_def genesis_def)
  have g: "GetNextWorkRequired (Some block1) 0 min_params = Inr 0x1e0fffff"
    by (simp add: GetNextWorkRequired_unfold h NoRetarget_def w b)
      (simp add: GetBlockTime_def demo_eval)
  have "fst (SetCompact 0x1e0fffff) \<le> powLimit min_params"
    by (rule result_at_most_powLimit [OF _ _ g]) (simp_all add: h w b l)
  with w g show ?thesis
    by (simp add: b)
qed

text \<open>
  C2 as stated bounds the bits of the previous index only. Under the min-difficulty rule
  that is not enough: the previous index \<open>high_block1\<close> records the encoded limit, the walk
  steps back to the genesis block, and the result is the bits of that block, which decode
  to \<open>2 ^ 236\<close>, one above \<open>powLimit\<close>.
\<close>

theorem result_at_most_powLimit_counterexample:
  "fst (SetCompact (nBits high_block1)) \<le> powLimit min_params
   \<and> GetNextWorkRequired (Some high_block1) 0 min_params = Inr 0x1e100000
   \<and> fst (SetCompact 0x1e100000) = 2 ^ 236
   \<and> powLimit min_params < fst (SetCompact 0x1e100000)"
proof -
  have h: "Interval min_params (NextHeight high_block1) = 32"
    "GetCompact (powLimit min_params) = 0x1e0fffff"
    "c_mod (NextHeight high_block1) 32 = 2"
    by (simp_all add: demo_eval high_block1_def GetCompact_powLimit)
  have w: "LastNonSpecial 32 0x1e0fffff high_block1 = high_genesis"
    by (simp add: high_block1_def high_genesis_def c_mod_def)
  have b: "nBits high_block1 = 0x1e0fffff" "nBits high_genesis = 0x1e100000"
    by (simp_all add: high_block1_def high_genesis_def)
  have g: "GetNextWorkRequired (Some high_block1) 0 min_params = Inr 0x1e100000"
    by (simp add: GetNextWorkRequired_unfold h NoRetarget_def w b)
      (simp add: GetBlockTime_def demo_eval high_block1_def)
  have d: "fst (SetCompact 0x1e100000) = 2 ^ 236"
    by (simp add: SetCompact_def Let_def)
  have "fst (SetCompact 0x1e0fffff) \<le> powLimit min_params"
    by (simp add: SetCompact_limit min_params_def demo_params_def)
  moreover have "powLimit min_params < 2 ^ 236"
    by (simp add: min_params_def demo_params_def)
  ultimately show ?thesis
    by (simp add: g d b)
qed

subsection \<open>C3: no retarget due, no min-difficulty rule\<close>

text \<open>
  C3. When the height of the next block is neither a multiple of the interval nor one of
  the two fork heights, and \<open>fPowAllowMinDifficultyBlocks\<close> is false, the result is the
  bits of the previous block, whatever \<open>fPowNoRetargeting\<close> and the candidate's time
  are. The interval is the divisor of the test, so it is not 0.
\<close>

theorem previous_bits_unchanged:
  assumes "Interval params (NextHeight pindexLast) \<noteq> 0"
    and "c_mod (NextHeight pindexLast) (Interval params (NextHeight pindexLast)) \<noteq> 0"
    and "NextHeight pindexLast \<noteq> sint (nForkOne params)"
    and "NextHeight pindexLast \<noteq> sint (nForkTwo params)"
    and "\<not> fPowAllowMinDifficultyBlocks params"
  shows "GetNextWorkRequired (Some pindexLast) pblock_nTime params = Inr (nBits pindexLast)"
  using assms by (simp add: GetNextWorkRequired_unfold NoRetarget_def)

theorem previous_bits_unchanged_witness:
  "Interval demo_params (NextHeight genesis) = 32
   \<and> c_mod (NextHeight genesis) (Interval demo_params (NextHeight genesis)) = 1
   \<and> GetNextWorkRequired (Some genesis) 77 (demo_params\<lparr>fPowNoRetargeting := True\<rparr>)
       = Inr 0x1e0fffff"
proof -
  let ?p = "demo_params\<lparr>fPowNoRetargeting := True\<rparr>"
  have i: "Interval ?p (NextHeight genesis) = 32" "Interval demo_params (NextHeight genesis) = 32"
    by (simp_all add: demo_eval)
  have m: "c_mod (NextHeight genesis) 32 = 1"
    by (simp add: demo_eval)
  have "GetNextWorkRequired (Some genesis) 77 ?p = Inr (nBits genesis)"
    by (rule previous_bits_unchanged) (simp_all add: i m, simp_all add: demo_eval)
  then show ?thesis
    using i m by (simp add: genesis_def)
qed

subsection \<open>C4: the damped timespan after the second fork\<close>

text \<open>
  C4. On a retarget from \<open>nForkTwo\<close> on, the timespan handed to the limit step should be
  \<open>((shortTimespan + longTimespan) / 2 + 3 * nTargetTimespan) / 4\<close>, the windows being
  those of the claim (\<open>spec_damped_timespan\<close>). The code computes this as long as the
  average fits an \<^verbatim>\<open>int\<close> (\<open>ActualTimespan_agrees\<close>), but line 74 stores the average of
  the 64-bit short timespan and the long timespan in an \<^verbatim>\<open>int\<close>. On the chain
  \<open>late_tip\<close>, with the short window from height 8 and the long window from height 1, the
  short window spans 4294967295 seconds, the average 2684354559 becomes negative, and the
  call hands \<open>- 402639009\<close> to the limit step, which ends on its lower bound, where the
  timespan of the claim is 671102814 and ends on the upper one.
\<close>

theorem long_window_average_narrowed:
  "GetAncestor late_tip 8 = Some late_first
   \<and> pprev_steps 8 (Some late_tip) = Some late_long
   \<and> ActualTimespan late_tip late_first fork_two_params 10 18900 2 = Inr (- 402639009)
   \<and> spec_damped_timespan late_tip late_first late_long 18900 = 671102814
   \<and> LimitAdjustmentStep fork_two_params 10 18900 (- 402639009) = 17331
   \<and> LimitAdjustmentStep fork_two_params 10 18900 671102814 = 20610
   \<and> GetNextWorkRequired (Some late_tip) 0 fork_two_params = Inr 0x1e0eabf6"
proof -
  have "spec_damped_timespan late_tip late_first late_long 18900 = 671102814"
    by (simp add: spec_damped_timespan_def late_times c_div_def)
  then show ?thesis
    by (simp add: late_walks ActualTimespan_late LimitAdjustmentStep_fork_two
        GetNextWorkRequired_late)
qed

subsection \<open>C5: the limited timespan lies within the bounds of its regime\<close>

text \<open>
  C5, as amended. The timespan that the limit step hands to the rescaling lies between
  \<open>nTargetTimespan * 70 / 99\<close> and \<open>nTargetTimespan * 99 / 70\<close> from \<open>nForkOne\<close> to below
  \<open>nForkTwo\<close>, and between \<open>nTargetTimespan * 453 / 494\<close> and
  \<open>nTargetTimespan * 494 / 453\<close> from \<open>nForkTwo\<close> on. Below \<open>nForkOne\<close>, where the target
  timespan is the configured one, it lies between \<open>nTargetTimespan / 4\<close> and
  \<open>nTargetTimespan * 4\<close> when the target timespan is not negative and
  \<open>nTargetTimespan * 4\<close> fits an \<^verbatim>\<open>int\<close>. Under the same condition, which the fixed
  timespans of both forks meet, the multiplier of line 110 is the limited value itself.
\<close>

theorem clamped_timespan_within_bounds:
  assumes "nTargetTimespan = TargetTimespan params nHeight'"
    and "nLimited = LimitAdjustmentStep params nHeight' nTargetTimespan nActualTimespan"
  shows "(nHeight' < sint (nForkOne params) \<and> 0 \<le> nTargetTimespan
            \<and> nTargetTimespan * 4 < 2 ^ 31 \<longrightarrow>
          c_div nTargetTimespan 4 \<le> nLimited \<and> nLimited \<le> nTargetTimespan * 4)
     \<and> (sint (nForkOne params) \<le> nHeight' \<and> nHeight' < sint (nForkTwo params) \<longrightarrow>
          c_div (nTargetTimespan * 70) 99 \<le> nLimited
          \<and> nLimited \<le> c_div (nTargetTimespan * 99) 70)
     \<and> (sint (nForkTwo params) \<le> nHeight' \<longrightarrow>
          c_div (nTargetTimespan * 453) 494 \<le> nLimited
          \<and> nLimited \<le> c_div (nTargetTimespan * 494) 453)
     \<and> (0 \<le> nTargetTimespan \<and> nTargetTimespan * 4 < 2 ^ 31 \<longrightarrow>
          to_uint32 nLimited = nLimited)"
proof (cases "0 \<le> nTargetTimespan \<and> nTargetTimespan * 4 < 2 ^ 31")
  case False
  then have "nHeight' < sint (nForkOne params)" "nHeight' < sint (nForkTwo params)"
    using assms(1) by (auto simp add: TargetTimespan_cases split: if_splits)
  with False show ?thesis by auto
next
  case True
  let ?T = nTargetTimespan and ?a = nLimited
  have fit: "to_int (?T * 4) = ?T * 4"
    using True by (intro to_int_id) simp_all
  have fixed: "nHeight' \<ge> sint (nForkTwo params) \<longrightarrow> ?T = 18900"
    "nHeight' \<ge> sint (nForkOne params) \<and> nHeight' < sint (nForkTwo params) \<longrightarrow> ?T = 75600"
    using assms(1) by (simp_all add: TargetTimespan_cases)
  have ord: "ActualTimespanMin params nHeight' ?T \<le> ActualTimespanMax params nHeight' ?T"
    using True bounds_ordered [OF assms(1)] by simp
  have b: "ActualTimespanMin params nHeight' ?T \<le> ?a" "?a \<le> ActualTimespanMax params nHeight' ?T"
    using LimitAdjustmentStep_between [OF ord, of nActualTimespan] assms(2) by simp_all
  have 1: "c_div ?T 4 \<le> ?a \<and> ?a \<le> ?T * 4" if "nHeight' < sint (nForkOne params)"
  proof (cases "nHeight' \<ge> sint (nForkTwo params)")
    case True
    with fixed b that show ?thesis
      by (simp add: ActualTimespanMin_def ActualTimespanMax_def Let_def c_div_def to_int_def)
  next
    case False
    with b that fit show ?thesis
      by (simp add: ActualTimespanMin_def ActualTimespanMax_def Let_def)
  qed
  have 2: "c_div (?T * 70) 99 \<le> ?a \<and> ?a \<le> c_div (?T * 99) 70"
    if "sint (nForkOne params) \<le> nHeight' \<and> nHeight' < sint (nForkTwo params)"
    using b that fixed
    by (simp add: ActualTimespanMin_def ActualTimespanMax_def Let_def c_div_def to_int_def)
  have 3: "c_div (?T * 453) 494 \<le> ?a \<and> ?a \<le> c_div (?T * 494) 453"
    if "sint (nForkTwo params) \<le> nHeight'"
    using b that fixed
    by (simp add: ActualTimespanMin_def ActualTimespanMax_def Let_def c_div_def to_int_def)
  have 4: "to_uint32 ?a = ?a"
  proof -
    have "0 \<le> ActualTimespanMin params nHeight' ?T"
      "ActualTimespanMax params nHeight' ?T \<le> ?T * 4"
      using True fixed fit
      by (auto simp add: ActualTimespanMin_def ActualTimespanMax_def Let_def c_div_def sgn_if
          to_int_def)
    with b True have "0 \<le> ?a" "?a < 2 ^ 31" by linarith+
    then show ?thesis by (simp add: to_uint32_def)
  qed
  from 1 2 3 4 show ?thesis by blast
qed

theorem clamped_timespan_within_bounds_witness:
  "LimitAdjustmentStep fork_params 3 75600 9450 = 53454
   \<and> c_div (75600 * 70) 99 \<le> 53454 \<and> 53454 \<le> c_div (75600 * 99) 70
   \<and> to_uint32 53454 = 53454
   \<and> LimitAdjustmentStep demo_params 32 302400 9450 = 75600
   \<and> c_div 302400 4 \<le> 75600 \<and> (75600::int) \<le> 302400 * 4"
proof -
  have t: "TargetTimespan demo_params 32 = 302400"
    by (simp add: demo_eval)
  have l: "LimitAdjustmentStep demo_params 32 302400 9450 = 75600"
    by (simp add: LimitAdjustmentStep_def ActualTimespanMax_def ActualTimespanMin_def
        demo_params_def c_div_def to_int_def)
  have s: "(32::int) < sint (nForkOne demo_params)"
    by (simp add: demo_params_def)
  from clamped_timespan_within_bounds [of 75600 fork_params 3 53454 9450]
    clamped_timespan_within_bounds [of 302400 demo_params 32 75600 9450]
  show ?thesis
    by (simp add: fork_header LimitAdjustmentStep_fork_example t l s)
qed

text \<open>
  C5 as stated fails below \<open>nForkOne\<close> for a configured timespan outside that range. With
  \<open>2 ^ 30\<close> seconds the product of line 82 does not fit an \<^verbatim>\<open>int\<close>: the upper bound is 0,
  and a measured timespan of \<open>2 ^ 30\<close> is limited to 0, below \<open>nTargetTimespan / 4\<close>. With
  \<open>- 8\<close> seconds the bounds are \<open>- 2\<close> and \<open>- 32\<close> and no value lies between them: a measured
  timespan of 0 is limited to \<open>- 32\<close>.
\<close>

theorem clamped_timespan_within_bounds_counterexample:
  "TargetTimespan wide_params 4 = 1073741824
   \<and> 4 < sint (nForkOne wide_params)
   \<and> LimitAdjustmentStep wide_params 4 1073741824 1073741824 = 0
   \<and> c_div 1073741824 4 = 268435456
   \<and> TargetTimespan negative_params 4 = - 8
   \<and> 4 < sint (nForkOne negative_params)
   \<and> LimitAdjustmentStep negative_params 4 (- 8) 0 = - 32
   \<and> c_div (- 8) 4 = - 2"
  by (simp add: LimitAdjustmentStep_def ActualTimespanMax_def ActualTimespanMin_def
      TargetTimespan_def wide_params_def negative_params_def demo_params_def c_div_def
      to_int_def Let_def)

subsection \<open>C6: the bounded walks\<close>

text \<open>
  C6. The walk of the min-difficulty rule tests \<^verbatim>\<open>pindex->pprev\<close> before each step and
  ends on a block of the chain. The long-window walk tests the pointer it has just
  stepped to, so on a chain with fewer than \<open>nInterval * 4\<close> predecessors it ends on the
  null pointer, which line 71 dereferences (\<open>ActualTimespan_exhausted\<close>): with the
  second fork at height 0 and an interval of 2, the call for the block after \<open>block1\<close>
  does not return a target.
\<close>

theorem long_window_null_dereference:
  "GetNextWorkRequired (Some block1) 18900 fork_two_params = Inl NullDereference"
  by (simp add: GetNextWorkRequired_def RetargetPath_def GetAncestor_def ActualTimespan_def
      LongWindowFirst.simps to_int_def demo_eval)

subsection \<open>C7: the shift guard of the rescaling\<close>

text \<open>
  C7. In the rescaling the decoded target is shifted right by one bit before the
  multiplication, and the quotient shifted left by one bit, exactly when the bit length
  of the target exceeds the bit length of \<open>powLimit\<close> minus one; otherwise the target is
  multiplied by the timespan and divided by the target timespan unshifted. The
  arithmetic is that of 256-bit magnitudes. Stated for a \<open>powLimit\<close> other than 0, a
  timespan that fits the 32-bit multiplier of line 110 and a positive target timespan:
  the limit step gives such a timespan whenever the target timespan is positive and
  \<open>nTargetTimespan * 4\<close> fits an \<^verbatim>\<open>int\<close>.
\<close>

theorem shift_guard_threshold:
  assumes "bnPowLimit \<noteq> 0"
    and "0 \<le> nActualTimespan" "nActualTimespan < 2 ^ 32"
    and "0 < nTargetTimespan" "nTargetTimespan < 2 ^ 64"
  shows "Rescale bnNew bnPowLimit nActualTimespan nTargetTimespan =
    Inr (if int (bits bnNew) > int (bits bnPowLimit) - 1
         then push_bit 1
                ((drop_bit 1 bnNew * word_of_int nActualTimespan) div word_of_int nTargetTimespan)
         else (bnNew * word_of_int nActualTimespan) div word_of_int nTargetTimespan)"
proof -
  have "to_uint32 nActualTimespan = nActualTimespan"
    and "to_uint64 nTargetTimespan = nTargetTimespan"
    using assms by (simp_all add: to_uint32_def to_uint64_def)
  then show ?thesis
    using assms by (simp add: Rescale_def Let_def fShift_iff)
qed

theorem shift_guard_threshold_witness:
  "Rescale 0xfffff000000000000000000000000000000000000000000000000000000
     0x00000fffffffffffffffffffffffffffffffffffffffffffffffffffffffffff 53454 75600
     = Inr (push_bit 1 (drop_bit 1 0xfffff000000000000000000000000000000000000000000000000000000 * 53454 div 75600))
   \<and> bits 0xffff = 16
   \<and> Rescale 0xffff 0x00000fffffffffffffffffffffffffffffffffffffffffffffffffffffffffff 53454 75600
     = Inr (0xffff * 53454 div 75600)"
proof -
  have p: "(0x00000fffffffffffffffffffffffffffffffffffffffffffffffffffffffffff :: 256 word) \<noteq> 0"
    by simp
  have b: "bits 0xffff = 16"
    using bits_eq [of 15 "0xffff"] by simp
  have "(0::int) \<le> 53454" "(53454::int) < 2 ^ 32" "(0::int) < 75600" "(75600::int) < 2 ^ 64"
    by simp_all
  note r = shift_guard_threshold [OF p this]
  show ?thesis
    using r [of "0xfffff000000000000000000000000000000000000000000000000000000"] r [of "0xffff"]
    by (simp add: bits_limit_target bits_powLimit b)
qed

subsection \<open>C8: a fork height forces a retarget\<close>

text \<open>
  C8. When the height of the next block is \<open>nForkOne\<close> or \<open>nForkTwo\<close>, the result is
  that of the retarget path (lines 54 to 118), whether or not the height is a multiple of
  the interval; at any other height that is not a multiple of the interval, the result is
  that of lines 35 to 51. The interval is the divisor of the test, so it is not 0.
\<close>

theorem fork_boundary_forces_retarget:
  assumes "Interval params (NextHeight pindexLast) \<noteq> 0"
  shows "(NextHeight pindexLast = sint (nForkOne params)
            \<or> NextHeight pindexLast = sint (nForkTwo params) \<longrightarrow>
          GetNextWorkRequired (Some pindexLast) pblock_nTime params =
            RetargetPath pindexLast params (NextHeight pindexLast)
              (TargetTimespan params (NextHeight pindexLast))
              (Interval params (NextHeight pindexLast)))
       \<and> (NextHeight pindexLast \<noteq> sint (nForkOne params)
            \<and> NextHeight pindexLast \<noteq> sint (nForkTwo params)
            \<and> c_mod (NextHeight pindexLast) (Interval params (NextHeight pindexLast)) \<noteq> 0 \<longrightarrow>
          GetNextWorkRequired (Some pindexLast) pblock_nTime params =
            Inr (NoRetarget pindexLast pblock_nTime params
                   (Interval params (NextHeight pindexLast))))"
  using assms by (auto simp add: GetNextWorkRequired_unfold)

theorem fork_boundary_forces_retarget_witness:
  "NextHeight block2 = sint (nForkOne fork_params)
   \<and> Interval fork_params (NextHeight block2) = 2
   \<and> c_mod (NextHeight block2) (Interval fork_params (NextHeight block2)) = 1
   \<and> GetNextWorkRequired (Some block2) 0 fork_params = Inr 0x1e0b5021"
proof -
  have "Interval fork_params (NextHeight block2) \<noteq> 0"
    by (simp add: fork_header)
  from fork_boundary_forces_retarget [OF this, of 0]
  have "GetNextWorkRequired (Some block2) 0 fork_params = RetargetPath block2 fork_params 3 75600 2"
    by (simp add: fork_header)
  then show ?thesis
    by (simp add: fork_header RetargetPath_fork_example)
qed

subsection \<open>C9: the stale-clock rule\<close>

text \<open>
  C9. When no retarget is due (the height of the next block is neither a multiple of the
  interval nor a fork height), \<open>fPowAllowMinDifficultyBlocks\<close> is set and the candidate's
  time is more than the previous block's time plus twice \<open>nPowTargetSpacing\<close> (the
  parameter itself), the result is the compact form of \<open>powLimit\<close>. Of the chain, only
  the height and the time of the previous block are read.
\<close>

theorem min_difficulty_stale_clock:
  assumes "Interval params (NextHeight pindexLast) \<noteq> 0"
    and "c_mod (NextHeight pindexLast) (Interval params (NextHeight pindexLast)) \<noteq> 0"
    and "NextHeight pindexLast \<noteq> sint (nForkOne params)"
    and "NextHeight pindexLast \<noteq> sint (nForkTwo params)"
    and "fPowAllowMinDifficultyBlocks params"
    and "uint pblock_nTime > GetBlockTime pindexLast + 2 * sint (nPowTargetSpacing params)"
  shows "GetNextWorkRequired (Some pindexLast) pblock_nTime params
           = Inr (GetCompact (powLimit params))"
  using assms by (simp add: GetNextWorkRequired_unfold NoRetarget_def mult.commute)

theorem min_difficulty_stale_clock_witness:
  "uint (18901 :: 32 word) > GetBlockTime genesis
      + 2 * sint (nPowTargetSpacing (demo_params\<lparr>fPowAllowMinDifficultyBlocks := True\<rparr>))
   \<and> GetNextWorkRequired (Some genesis) 18901
         (demo_params\<lparr>fPowAllowMinDifficultyBlocks := True\<rparr>) = Inr 0x1e0fffff"
proof -
  let ?p = "demo_params\<lparr>fPowAllowMinDifficultyBlocks := True\<rparr>"
  have i: "Interval ?p (NextHeight genesis) = 32"
    by (simp add: demo_eval)
  have m: "c_mod (NextHeight genesis) 32 = 1"
    by (simp add: demo_eval)
  have t: "uint (18901 :: 32 word) > GetBlockTime genesis + 2 * sint (nPowTargetSpacing ?p)"
    by (simp add: GetBlockTime_def demo_eval)
  have "GetNextWorkRequired (Some genesis) 18901 ?p = Inr (GetCompact (powLimit ?p))"
    by (rule min_difficulty_stale_clock)
      (simp_all add: i m, simp_all add: GetBlockTime_def demo_eval)
  then show ?thesis
    using t by (simp add: demo_params_def GetCompact_powLimit)
qed

subsection \<open>C10: an interval of zero\<close>

text \<open>
  C10. The interval \<open>nTargetTimespan / nTargetSpacing\<close> is the divisor of the test of
  line 33 and nothing guards it. From the second fork on the timespan is 18900, so with a
  spacing above 18900 every call is a division by zero; and for a positive spacing and a
  timespan that is not negative, the call is a division by zero exactly when the spacing
  exceeds the timespan.
\<close>

theorem interval_zero_undefined:
  "(sint (nPowTargetSpacing params) > 18900 \<and> NextHeight pindexLast \<ge> sint (nForkTwo params)
      \<longrightarrow> GetNextWorkRequired (Some pindexLast) pblock_nTime params = Inl DivisionByZero)
   \<and> (0 < sint (nPowTargetSpacing params) \<and> 0 \<le> TargetTimespan params (NextHeight pindexLast)
      \<longrightarrow> (GetNextWorkRequired (Some pindexLast) pblock_nTime params = Inl DivisionByZero
            \<longleftrightarrow> TargetTimespan params (NextHeight pindexLast) < sint (nPowTargetSpacing params)))"
proof (intro conjI impI)
  assume a: "sint (nPowTargetSpacing params) > 18900 \<and> NextHeight pindexLast \<ge> sint (nForkTwo params)"
  then have "Interval params (NextHeight pindexLast) = 0"
    by (simp add: Interval_def TargetTimespan_ForkTwo c_div_eq_0_iff)
  then show "GetNextWorkRequired (Some pindexLast) pblock_nTime params = Inl DivisionByZero"
    by (simp add: GetNextWorkRequired_DivisionByZero_iff)
next
  assume "0 < sint (nPowTargetSpacing params) \<and> 0 \<le> TargetTimespan params (NextHeight pindexLast)"
  then show "GetNextWorkRequired (Some pindexLast) pblock_nTime params = Inl DivisionByZero
            \<longleftrightarrow> TargetTimespan params (NextHeight pindexLast) < sint (nPowTargetSpacing params)"
    by (simp add: GetNextWorkRequired_DivisionByZero_iff Interval_def c_div_eq_0_iff)
qed

theorem interval_zero_undefined_witness:
  "GetNextWorkRequired (Some genesis) 0 (demo_params\<lparr>nPowTargetSpacing := 18901, nForkTwo := 0\<rparr>)
     = Inl DivisionByZero
   \<and> GetNextWorkRequired (Some genesis) 0 demo_params \<noteq> Inl DivisionByZero"
proof -
  let ?p = "demo_params\<lparr>nPowTargetSpacing := 18901, nForkTwo := 0\<rparr>"
  have "sint (nPowTargetSpacing ?p) > 18900 \<and> NextHeight genesis \<ge> sint (nForkTwo ?p)"
    by (simp add: demo_eval)
  with interval_zero_undefined [of ?p genesis 0]
  have 1: "GetNextWorkRequired (Some genesis) 0 ?p = Inl DivisionByZero"
    by blast
  have "0 < sint (nPowTargetSpacing demo_params)
      \<and> 0 \<le> TargetTimespan demo_params (NextHeight genesis)
      \<and> \<not> TargetTimespan demo_params (NextHeight genesis) < sint (nPowTargetSpacing demo_params)"
    by (simp add: demo_eval)
  with interval_zero_undefined [of demo_params genesis 0]
  have 2: "GetNextWorkRequired (Some genesis) 0 demo_params \<noteq> Inl DivisionByZero"
    by blast
  from 1 2 show ?thesis by simp
qed

end
